theory Spec2Isabelle
  imports Complex_Main
begin

section \<open>Python values, errors and sequences\<close>

text \<open>
  The development embeds \<^verbatim>\<open>src/timeseries/TimeSeries.py\<close>. The module is Python 3 (it
  imports \<^verbatim>\<open>reprlib\<close> and uses \<^verbatim>\<open>collections.Sequence\<close>, so a release from 3.3 to 3.9):
  \<^verbatim>\<open>/\<close> is true division, and \<^verbatim>\<open>range\<close> builds a range object, not a list. Numeric
  elements are modelled as exact rationals: Python integers embed exactly, and
  floating-point rounding is not modelled. Every exception the class can raise is a value
  of \<open>error\<close>; a method that can raise returns \<open>error + result\<close>. The local variable and
  attribute \<^verbatim>\<open>value\<close> of the source is written \<open>val\<close>. The base class
  \<^verbatim>\<open>SizedContainerTimeSeriesInterface\<close> and the modules \<^verbatim>\<open>lazy\<close> and \<^verbatim>\<open>numpy\<close> are not among
  the sources; the methods embedded here are defined by \<^verbatim>\<open>TimeSeries\<close> itself and do not call
  into them (the text of an error message, which uses \<^verbatim>\<open>str(self)\<close>, is not modelled).
\<close>

datatype error = TypeError | ValueError | IndexError | ZeroDivisionError

text \<open>
  The objects a caller hands to the class: \<^verbatim>\<open>None\<close>, a number, or a sequence of numbers
  (a list, a tuple or a range: all are \<^verbatim>\<open>collections.Sequence\<close>, and the constructor only
  looks at their truth value, their length and \<^verbatim>\<open>list(...)\<close> of them).
\<close>

datatype pyobj = PyNone | PyNum rat | PySeq "rat list"

definition isinstance_Sequence :: "pyobj \<Rightarrow> bool" where
  "isinstance_Sequence x = (case x of PySeq xs \<Rightarrow> True | PyNone \<Rightarrow> False | PyNum r \<Rightarrow> False)"

definition truthy :: "pyobj \<Rightarrow> bool" where
  "truthy x = (case x of PyNone \<Rightarrow> False | PyNum r \<Rightarrow> r \<noteq> 0 | PySeq xs \<Rightarrow> xs \<noteq> [])"

definition list_of :: "pyobj \<Rightarrow> rat list" where
  "list_of x = (case x of PySeq xs \<Rightarrow> xs | PyNone \<Rightarrow> [] | PyNum r \<Rightarrow> [])"

text \<open>
  The attribute \<^verbatim>\<open>_time\<close> holds either a list (\<^verbatim>\<open>list(input_time)\<close>) or the range object
  \<^verbatim>\<open>range(1, len(input_value) + 1)\<close>. \<open>TRange a b\<close> is \<^verbatim>\<open>range(a, b)\<close>.
\<close>

datatype timeseq = TList "rat list" | TRange int int

definition seq_elems :: "timeseq \<Rightarrow> rat list" where
  "seq_elems s =
     (case s of
        TList xs \<Rightarrow> xs
      | TRange a b \<Rightarrow> map (\<lambda>k. of_int (a + int k)) [0..<nat (b - a)])"

text \<open>
  Python's \<^verbatim>\<open>!=\<close> on two stored time sequences: two lists differ when their elements do,
  two ranges when the sequences they stand for do, and a list and a range object are never
  equal, whatever they hold.
\<close>

fun py_ne :: "timeseq \<Rightarrow> timeseq \<Rightarrow> bool" where
  "py_ne (TList xs) (TList ys) = (xs \<noteq> ys)"
| "py_ne (TRange a b) (TRange c d) = (seq_elems (TRange a b) \<noteq> seq_elems (TRange c d))"
| "py_ne (TList xs) (TRange c d) = True"
| "py_ne (TRange a b) (TList ys) = True"

text \<open>
  A stored time sequence handed back to the constructor: a range object is a Sequence, is
  true when it is not empty, and \<^verbatim>\<open>len\<close> and \<^verbatim>\<open>list\<close> see its elements.
\<close>

definition as_pyobj :: "timeseq \<Rightarrow> pyobj" where
  "as_pyobj s = PySeq (seq_elems s)"

text \<open>
  Integer indexing of a list or range of length \<open>n\<close>: a negative index counts from the
  end, and an index outside \<open>[-n, n)\<close> raises \<^verbatim>\<open>IndexError\<close>.
\<close>

definition py_index :: "int \<Rightarrow> nat \<Rightarrow> error + nat" where
  "py_index i n =
     (let j = (if i < 0 then i + int n else i)
      in if 0 \<le> j \<and> j < int n then Inr (nat j) else Inl IndexError)"

definition list_getitem :: "'a list \<Rightarrow> int \<Rightarrow> error + 'a" where
  "list_getitem xs i =
     (case py_index i (length xs) of Inl e \<Rightarrow> Inl e | Inr k \<Rightarrow> Inr (xs ! k))"

definition list_setitem :: "'a list \<Rightarrow> int \<Rightarrow> 'a \<Rightarrow> error + 'a list" where
  "list_setitem xs i v =
     (case py_index i (length xs) of Inl e \<Rightarrow> Inl e | Inr k \<Rightarrow> Inr (xs[k := v]))"

text \<open>
  Slicing, as \<^verbatim>\<open>slice.indices\<close> computes it: \<open>range_len a b st\<close> is
  \<^verbatim>\<open>len(range(a, b, st))\<close>, and a slice of a sequence of length \<open>n\<close> selects the positions
  \<^verbatim>\<open>range(*slice(start, stop, step).indices(n))\<close>. A step of zero raises \<^verbatim>\<open>ValueError\<close>.
\<close>

definition range_len :: "int \<Rightarrow> int \<Rightarrow> int \<Rightarrow> nat" where
  "range_len a b st =
     (if 0 < st then (if a < b then nat ((b - a - 1) div st + 1) else 0)
      else (if b < a then nat ((a - b - 1) div (- st) + 1) else 0))"

definition slice_indices :: "int option \<Rightarrow> int option \<Rightarrow> int option \<Rightarrow> nat \<Rightarrow> error + nat list" where
  "slice_indices start stop step n =
     (let st = (case step of None \<Rightarrow> 1 | Some s \<Rightarrow> s)
      in if st = 0 then Inl ValueError
         else
           (let lower = (if st < 0 then - 1 else 0);
                upper = (if st < 0 then int n - 1 else int n);
                adjust = (\<lambda>i. if i < 0 then max (i + int n) lower else min i upper);
                a = (case start of None \<Rightarrow> (if st < 0 then upper else lower) | Some i \<Rightarrow> adjust i);
                b = (case stop of None \<Rightarrow> (if st < 0 then lower else upper) | Some i \<Rightarrow> adjust i)
            in Inr (map (\<lambda>k. nat (a + int k * st)) [0..<range_len a b st])))"

definition list_getslice :: "'a list \<Rightarrow> int option \<Rightarrow> int option \<Rightarrow> int option \<Rightarrow> error + 'a list" where
  "list_getslice xs start stop step =
     (case slice_indices start stop step (length xs) of
        Inl e \<Rightarrow> Inl e
      | Inr ks \<Rightarrow> Inr (map (\<lambda>k. xs ! k) ks))"

text \<open>
  A slice of the stored time sequence. Slicing a range object gives a range object again;
  the constructor, its only consumer, reads it as the sequence of its elements.
\<close>

definition seq_getslice :: "timeseq \<Rightarrow> int option \<Rightarrow> int option \<Rightarrow> int option \<Rightarrow> error + pyobj" where
  "seq_getslice s start stop step =
     (case list_getslice (seq_elems s) start stop step of
        Inl e \<Rightarrow> Inl e
      | Inr ts \<Rightarrow> Inr (PySeq ts))"

section \<open>The TimeSeries class\<close>

text \<open>The three attributes \<^verbatim>\<open>_time\<close>, \<^verbatim>\<open>_value\<close> and \<^verbatim>\<open>_timeseries\<close>.\<close>

record timeseries =
  ts_time :: timeseq
  ts_value :: "rat list"
  ts_timeseries :: "(rat \<times> rat) list"

text \<open>\<^verbatim>\<open>__init__(self, input_value, input_time)\<close>.\<close>

definition TimeSeries_init :: "pyobj \<Rightarrow> pyobj \<Rightarrow> error + timeseries" where
  "TimeSeries_init input_value input_time =
     (if \<not> isinstance_Sequence input_value then Inl TypeError
      else if truthy input_time then
        (if \<not> isinstance_Sequence input_time then Inl TypeError
         else if length (list_of input_time) \<noteq> length (list_of input_value) then Inl ValueError
         else Inr \<lparr>ts_time = TList (list_of input_time),
                   ts_value = list_of input_value,
                   ts_timeseries = zip (list_of input_time) (list_of input_value)\<rparr>)
      else
        (let r = TRange 1 (int (length (list_of input_value)) + 1)
         in Inr \<lparr>ts_time = r,
                 ts_value = list_of input_value,
                 ts_timeseries = zip (seq_elems r) (list_of input_value)\<rparr>))"

text \<open>
  The call \<^verbatim>\<open>TimeSeries(*args)\<close>: the signature has two positional parameters and no
  default, so a call with any other number of arguments raises \<^verbatim>\<open>TypeError\<close> before the
  body runs.
\<close>

definition TimeSeries :: "pyobj list \<Rightarrow> error + timeseries" where
  "TimeSeries args =
     (case args of
        [input_value, input_time] \<Rightarrow> TimeSeries_init input_value input_time
      | _ \<Rightarrow> Inl TypeError)"

text \<open>\<^verbatim>\<open>__len__\<close>.\<close>

definition ts_len :: "timeseries \<Rightarrow> nat" where
  "ts_len ts = length (ts_value ts)"

text \<open>
  \<^verbatim>\<open>__getitem__\<close>. An index is an integer, a slice object, or anything else; the result
  is a new series (for a slice) or a (time, value) pair.
\<close>

datatype pyindex = IntIndex int | SliceIndex "int option" "int option" "int option" | OtherIndex

datatype item = NewSeries timeseries | TimeValue "rat \<times> rat"

definition getitem :: "timeseries \<Rightarrow> pyindex \<Rightarrow> error + item" where
  "getitem ts idx =
     (case idx of
        SliceIndex start stop step \<Rightarrow>
          (case list_getslice (ts_value ts) start stop step of
             Inl e \<Rightarrow> Inl e
           | Inr vs \<Rightarrow>
               (case seq_getslice (ts_time ts) start stop step of
                  Inl e \<Rightarrow> Inl e
                | Inr tm \<Rightarrow>
                    (case TimeSeries_init (PySeq vs) tm of
                       Inl e \<Rightarrow> Inl e
                     | Inr new \<Rightarrow> Inr (NewSeries new))))
      | IntIndex i \<Rightarrow>
          (case list_getitem (ts_timeseries ts) i of
             Inl e \<Rightarrow> Inl e
           | Inr p \<Rightarrow> Inr (TimeValue p))
      | OtherIndex \<Rightarrow> Inl TypeError)"

text \<open>
  \<^verbatim>\<open>__setitem__\<close> mutates the object, so the model returns the object as the call leaves
  it together with the exception raised, if any. The two assignments run in the source's
  order: \<^verbatim>\<open>_value\<close> is already updated when the second one evaluates \<^verbatim>\<open>self._time[index]\<close>
  and stores the pair.
\<close>

definition setitem :: "timeseries \<Rightarrow> pyindex \<Rightarrow> rat \<Rightarrow> error option \<times> timeseries" where
  "setitem ts idx v =
     (case idx of
        IntIndex i \<Rightarrow>
          (case list_setitem (ts_value ts) i v of
             Inl e \<Rightarrow> (Some e, ts)
           | Inr vs \<Rightarrow>
               (let ts1 = ts\<lparr>ts_value := vs\<rparr>
                in case list_getitem (seq_elems (ts_time ts1)) i of
                     Inl e \<Rightarrow> (Some e, ts1)
                   | Inr t \<Rightarrow>
                       (case list_setitem (ts_timeseries ts1) i (t, v) of
                          Inl e \<Rightarrow> (Some e, ts1)
                        | Inr ps \<Rightarrow> (None, ts1\<lparr>ts_timeseries := ps\<rparr>))))
      | SliceIndex start stop step \<Rightarrow> (Some TypeError, ts)
      | OtherIndex \<Rightarrow> (Some TypeError, ts))"

text \<open>
  \<^verbatim>\<open>interpolate\<close>. One pass of the body of \<^verbatim>\<open>while counter < n\<close> either appends a value
  and breaks, advances the cursor, or raises. Inside the loop \<open>1 \<le> counter < n\<close> and
  \<open>n = len(time)\<close>, so every index into \<open>time\<close> is in range; an index into \<open>value\<close> is
  checked against its own length. The number computed in the third branch is idealised:
  it is the exact rational value of the expression, where Python's true division yields
  a rounded double and may raise \<^verbatim>\<open>OverflowError\<close> on very large integers. The theorems
  of the claims below are about which branch runs, how many values are appended and how
  a call ends; they do not depend on the value of this number.
\<close>

datatype step = Append rat | Advance | Raise error

definition loop_body :: "rat list \<Rightarrow> rat list \<Rightarrow> nat \<Rightarrow> rat \<Rightarrow> nat \<Rightarrow> step" where
  "loop_body time val n t counter =
     (if t < time ! 0 then
        (if 0 < length val then Append (val ! 0) else Raise IndexError)
      else if t > time ! (n - 1) then
        (if n - 1 < length val then Append (val ! (n - 1)) else Raise IndexError)
      else if time ! (counter - 1) \<le> t \<and> t \<le> time ! counter then
        (if length val \<le> counter then Raise IndexError
         else if time ! counter - time ! (counter - 1) = 0 then Raise ZeroDivisionError
         else Append (t + t * ((val ! counter - val ! (counter - 1))
                                 / (time ! counter - time ! (counter - 1)))))
      else Advance)"

text \<open>
  The inner \<^verbatim>\<open>while\<close> loop for one query time: it returns the cursor it leaves and the
  value it appended, if any (\<open>None\<close> when the loop ends because \<open>counter < n\<close> fails).
\<close>

function scan :: "rat list \<Rightarrow> rat list \<Rightarrow> nat \<Rightarrow> rat \<Rightarrow> nat \<Rightarrow> error + nat \<times> rat option" where
  "scan time val n t counter =
     (if counter < n then
        (case loop_body time val n t counter of
           Append v \<Rightarrow> Inr (counter, Some v)
         | Raise e \<Rightarrow> Inl e
         | Advance \<Rightarrow> scan time val n t (counter + 1))
      else Inr (counter, None))"
  by pat_completeness auto
termination
  by (relation "measure (\<lambda>(time, val, n, t, counter). n - counter)") auto

declare scan.simps [simp del]

text \<open>
  The outer \<^verbatim>\<open>for t in newTimes\<close> loop, with the cursor and \<^verbatim>\<open>newValues\<close> as its state,
  and \<^verbatim>\<open>interpolate\<close> itself. The argument \<^verbatim>\<open>newTimes\<close> is a sequence of numbers.
\<close>

fun interp_loop ::
  "rat list \<Rightarrow> rat list \<Rightarrow> nat \<Rightarrow> rat list \<Rightarrow> nat \<Rightarrow> rat list \<Rightarrow> error + nat \<times> rat list" where
  "interp_loop time val n [] counter newValues = Inr (counter, newValues)"
| "interp_loop time val n (t # rest) counter newValues =
     (case scan time val n t counter of
        Inl e \<Rightarrow> Inl e
      | Inr (c, None) \<Rightarrow> interp_loop time val n rest c newValues
      | Inr (c, Some v) \<Rightarrow> interp_loop time val n rest c (newValues @ [v]))"

definition interpolate :: "timeseries \<Rightarrow> rat list \<Rightarrow> error + timeseries" where
  "interpolate ts newTimes =
     (let time = seq_elems (ts_time ts); val = ts_value ts; n = length time
      in case interp_loop time val n newTimes 1 [] of
           Inl e \<Rightarrow> Inl e
         | Inr (c, newValues) \<Rightarrow> TimeSeries_init (PySeq newValues) (PySeq newTimes))"

text \<open>
  The binary operators. The right operand is any object: a TimeSeries or something else.
  \<open>misaligned\<close> is the test
  \<^verbatim>\<open>len(self) != len(otherTS) or self._time != otherTS._time\<close>.
\<close>

datatype operand = TS timeseries | NotTS pyobj

definition misaligned :: "timeseries \<Rightarrow> timeseries \<Rightarrow> bool" where
  "misaligned self otherTS =
     (if ts_len self \<noteq> ts_len otherTS then True
      else py_ne (ts_time self) (ts_time otherTS))"

definition ts_add :: "timeseries \<Rightarrow> operand \<Rightarrow> error + timeseries" where
  "ts_add self x =
     (case x of
        NotTS obj \<Rightarrow> Inl TypeError
      | TS otherTS \<Rightarrow>
          (if misaligned self otherTS then Inl ValueError
           else TimeSeries_init
                  (PySeq (map (\<lambda>t. fst t + snd t) (zip (ts_value self) (ts_value otherTS))))
                  (as_pyobj (ts_time self))))"

definition ts_sub :: "timeseries \<Rightarrow> operand \<Rightarrow> error + timeseries" where
  "ts_sub self x =
     (case x of
        NotTS obj \<Rightarrow> Inl TypeError
      | TS otherTS \<Rightarrow>
          (if misaligned self otherTS then Inl ValueError
           else TimeSeries_init
                  (PySeq (map (\<lambda>t. fst t - snd t) (zip (ts_value self) (ts_value otherTS))))
                  (as_pyobj (ts_time self))))"

definition ts_mul :: "timeseries \<Rightarrow> operand \<Rightarrow> error + timeseries" where
  "ts_mul self x =
     (case x of
        NotTS obj \<Rightarrow> Inl TypeError
      | TS otherTS \<Rightarrow>
          (if misaligned self otherTS then Inl ValueError
           else TimeSeries_init
                  (PySeq (map (\<lambda>t. fst t * snd t) (zip (ts_value self) (ts_value otherTS))))
                  (as_pyobj (ts_time self))))"

definition ts_eq :: "timeseries \<Rightarrow> operand \<Rightarrow> error + bool" where
  "ts_eq self x =
     (case x of
        NotTS obj \<Rightarrow> Inl TypeError
      | TS otherTS \<Rightarrow>
          (if misaligned self otherTS then Inl ValueError
           else Inr (ts_timeseries self = ts_timeseries otherTS)))"

text \<open>\<^verbatim>\<open>__neg__\<close> and \<^verbatim>\<open>__pos__\<close>.\<close>

definition ts_neg :: "timeseries \<Rightarrow> error + timeseries" where
  "ts_neg self = TimeSeries_init (PySeq (map (\<lambda>v. - v) (ts_value self))) (as_pyobj (ts_time self))"

definition ts_pos :: "timeseries \<Rightarrow> error + timeseries" where
  "ts_pos self = TimeSeries_init (PySeq (ts_value self)) (as_pyobj (ts_time self))"

section \<open>The invariant of a TimeSeries object\<close>

text \<open>
  The two stored sequences have the same length, and the pair view \<^verbatim>\<open>_timeseries\<close> is the
  zip of the times and the values.
\<close>

definition ts_invariant :: "timeseries \<Rightarrow> bool" where
  "ts_invariant ts =
     (length (seq_elems (ts_time ts)) = length (ts_value ts)
      \<and> ts_timeseries ts = zip (seq_elems (ts_time ts)) (ts_value ts))"

text \<open>
  The position \<open>0 \<le> k < n\<close> that a valid integer index \<open>-n \<le> i < n\<close> denotes.
\<close>

definition position :: "int \<Rightarrow> nat \<Rightarrow> nat" where
  "position i n = nat (if i < 0 then i + int n else i)"

section \<open>Facts about the constructor and indexing\<close>

lemma init_invariant:
  assumes "TimeSeries_init v t = Inr ts"
  shows "ts_invariant ts"
  using assms
  by (auto simp: TimeSeries_init_def ts_invariant_def seq_elems_def Let_def split: if_splits)

lemma init_value:
  assumes "TimeSeries_init v t = Inr ts"
  shows "ts_value ts = list_of v"
  using assms
  by (auto simp: TimeSeries_init_def Let_def split: if_splits)

lemma init_aligned:
  assumes "length tm = length vs"
  shows "\<exists>ts. TimeSeries_init (PySeq vs) (PySeq tm) = Inr ts \<and> seq_elems (ts_time ts) = tm
          \<and> ts_value ts = vs \<and> ts_timeseries ts = zip tm vs"
  using assms
  by (auto simp: TimeSeries_init_def Let_def truthy_def list_of_def isinstance_Sequence_def
      seq_elems_def)

lemma py_index_Inr: "py_index i n = Inr k \<Longrightarrow> k < n"
  by (auto simp: py_index_def Let_def split: if_splits)

lemma py_index_valid:
  "- int n \<le> i \<Longrightarrow> i < int n \<Longrightarrow> py_index i n = Inr (nat (if i < 0 then i + int n else i))"
  by (auto simp: py_index_def Let_def)

lemma py_index_invalid: "i < - int n \<or> int n \<le> i \<Longrightarrow> py_index i n = Inl IndexError"
  by (auto simp: py_index_def Let_def)

lemma setitem_int_ok:
  assumes "ts_invariant ts" and "py_index i (length (ts_value ts)) = Inr k"
  shows "setitem ts (IntIndex i) v =
           (None, ts\<lparr>ts_value := (ts_value ts)[k := v],
                      ts_timeseries := (ts_timeseries ts)[k := (seq_elems (ts_time ts) ! k, v)]\<rparr>)"
  using assms
  by (simp add: setitem_def ts_invariant_def list_setitem_def list_getitem_def Let_def)

lemma setitem_int_bad:
  assumes "ts_invariant ts" and "py_index i (length (ts_value ts)) = Inl e"
  shows "setitem ts (IntIndex i) v = (Some e, ts)"
  using assms
  by (simp add: setitem_def ts_invariant_def list_setitem_def list_getitem_def Let_def)

lemma zip_update_snd:
  "k < length xs \<Longrightarrow> length xs = length ys \<Longrightarrow> (zip xs ys)[k := (xs ! k, v)] = zip xs (ys[k := v])"
  by (simp add: update_zip)

lemma setitem_invariant:
  assumes "ts_invariant ts"
  shows "ts_invariant (snd (setitem ts idx v))"
proof (cases idx)
  case (IntIndex i)
  show ?thesis
  proof (cases "py_index i (length (ts_value ts))")
    case (Inl e)
    with assms IntIndex show ?thesis by (simp add: setitem_int_bad)
  next
    case (Inr k)
    then have "k < length (ts_value ts)" by (rule py_index_Inr)
    with assms Inr IntIndex show ?thesis
      by (simp add: setitem_int_ok) (simp add: ts_invariant_def zip_update_snd)
  qed
next
  case (SliceIndex a b c)
  with assms show ?thesis by (simp add: setitem_def)
next
  case OtherIndex
  with assms show ?thesis by (simp add: setitem_def)
qed

lemma setitem_frame:
  "ts_len (snd (setitem ts idx v)) = ts_len ts \<and> ts_time (snd (setitem ts idx v)) = ts_time ts"
  by (auto simp: setitem_def ts_len_def list_setitem_def list_getitem_def Let_def
      split: pyindex.splits sum.splits)

lemma getitem_series_invariant:
  assumes "getitem ts idx = Inr (NewSeries r)"
  shows "ts_invariant r"
  using assms
  by (auto simp: getitem_def split: pyindex.splits sum.splits dest: init_invariant)

lemma interpolate_invariant:
  assumes "interpolate ts qs = Inr r"
  shows "ts_invariant r"
  using assms
  by (auto simp: interpolate_def Let_def split: sum.splits prod.splits dest: init_invariant)

lemma ts_add_invariant: "ts_add a x = Inr r \<Longrightarrow> ts_invariant r"
  by (auto simp: ts_add_def split: operand.splits if_splits dest: init_invariant)

lemma ts_sub_invariant: "ts_sub a x = Inr r \<Longrightarrow> ts_invariant r"
  by (auto simp: ts_sub_def split: operand.splits if_splits dest: init_invariant)

lemma ts_mul_invariant: "ts_mul a x = Inr r \<Longrightarrow> ts_invariant r"
  by (auto simp: ts_mul_def split: operand.splits if_splits dest: init_invariant)

lemma ts_neg_invariant: "ts_neg a = Inr r \<Longrightarrow> ts_invariant r"
  by (auto simp: ts_neg_def dest: init_invariant)

lemma ts_pos_invariant: "ts_pos a = Inr r \<Longrightarrow> ts_invariant r"
  by (auto simp: ts_pos_def dest: init_invariant)

lemma TimeSeries_invariant: "TimeSeries args = Inr ts \<Longrightarrow> ts_invariant ts"
  by (auto simp: TimeSeries_def split: list.splits dest: init_invariant)

lemma TimeSeries_explicit:
  assumes "length tm = length vs" and "tm \<noteq> []"
  shows "TimeSeries [PySeq vs, PySeq tm] =
           Inr \<lparr>ts_time = TList tm, ts_value = vs, ts_timeseries = zip tm vs\<rparr>"
  using assms
  by (simp add: TimeSeries_def TimeSeries_init_def truthy_def list_of_def isinstance_Sequence_def)

lemma py_index_position:
  "- int n \<le> i \<Longrightarrow> i < int n \<Longrightarrow> py_index i n = Inr (position i n)"
  by (simp add: py_index_valid position_def)

lemma getitem_int:
  assumes "ts_invariant ts" and "py_index i (ts_len ts) = Inr k"
  shows "getitem ts (IntIndex i) = Inr (TimeValue (seq_elems (ts_time ts) ! k, ts_value ts ! k))"
proof -
  from assms(2) have "k < length (ts_value ts)" unfolding ts_len_def by (rule py_index_Inr)
  with assms show ?thesis
    by (simp add: getitem_def list_getitem_def ts_invariant_def ts_len_def)
qed

lemma getitem_int_out_of_range:
  assumes "ts_invariant ts" and "i < - int (ts_len ts) \<or> int (ts_len ts) \<le> i"
  shows "getitem ts (IntIndex i) = Inl IndexError"
  using assms py_index_invalid [of i "ts_len ts"]
  by (simp add: getitem_def list_getitem_def ts_invariant_def ts_len_def)

section \<open>Facts about slicing\<close>

lemma slice_indices_defined:
  "step \<noteq> Some 0 \<Longrightarrow> \<exists>ks. slice_indices start stop step n = Inr ks"
  by (cases step) (auto simp: slice_indices_def Let_def)

lemma slice_indices_zero_step: "slice_indices start stop (Some 0) n = Inl ValueError"
  by (simp add: slice_indices_def)

lemma mult_le_of_le_div:
  fixes x m :: int
  assumes "0 < m" and "int j \<le> x div m"
  shows "int j * m \<le> x"
proof -
  from assms have "int j * m \<le> (x div m) * m" by (simp add: mult_right_mono)
  also have "(x div m) * m = x - x mod m" by (simp add: algebra_simps minus_mod_eq_mult_div)
  also from assms(1) have "\<dots> \<le> x" by simp
  finally show ?thesis .
qed

lemma range_index_bounds:
  assumes "st \<noteq> 0" and "j < range_len a b st"
  shows "(0 < st \<longrightarrow> a \<le> a + int j * st \<and> a + int j * st < b)
       \<and> (st < 0 \<longrightarrow> b < a + int j * st \<and> a + int j * st \<le> a)"
proof (cases "0 < st")
  case True
  with assms(2) have ab: "a < b" and j: "int j \<le> (b - a - 1) div st"
    by (auto simp: range_len_def split: if_splits)
  from mult_le_of_le_div [OF True j] have "int j * st \<le> b - a - 1" .
  moreover from True have "0 \<le> int j * st" by simp
  ultimately show ?thesis using True by simp
next
  case False
  with assms(1) have neg: "0 < - st" by simp
  with assms(2) False have ab: "b < a" and j: "int j \<le> (a - b - 1) div (- st)"
    by (auto simp: range_len_def split: if_splits)
  from mult_le_of_le_div [OF neg j] have "int j * (- st) \<le> a - b - 1" .
  moreover from neg have "0 \<le> int j * (- st)" by (intro mult_nonneg_nonneg) simp_all
  ultimately show ?thesis using False by simp
qed

lemma slice_indices_in_range:
  assumes "slice_indices start stop step n = Inr ks" and "k \<in> set ks"
  shows "k < n"
proof -
  define st where "st = (case step of None \<Rightarrow> 1 | Some s \<Rightarrow> s)"
  define lower where "lower = (if st < 0 then - 1 else (0::int))"
  define upper where "upper = (if st < 0 then int n - 1 else int n)"
  define adjust where "adjust = (\<lambda>i. if i < 0 then max (i + int n) lower else min i upper)"
  define a where "a = (case start of None \<Rightarrow> (if st < 0 then upper else lower) | Some i \<Rightarrow> adjust i)"
  define b where "b = (case stop of None \<Rightarrow> (if st < 0 then lower else upper) | Some i \<Rightarrow> adjust i)"
  from assms(1) have st0: "st \<noteq> 0"
    by (auto simp: slice_indices_def st_def Let_def split: if_splits)
  with assms(1) have ks: "ks = map (\<lambda>k. nat (a + int k * st)) [0..<range_len a b st]"
    unfolding a_def b_def adjust_def upper_def lower_def st_def slice_indices_def Let_def
    by (auto split: if_splits)
  have adj: "lower \<le> adjust i \<and> adjust i \<le> upper" for i
    by (auto simp: adjust_def lower_def upper_def)
  have a: "lower \<le> a \<and> a \<le> upper"
    using adj by (auto simp: a_def lower_def upper_def split: option.splits)
  have b: "lower \<le> b \<and> b \<le> upper"
    using adj by (auto simp: b_def lower_def upper_def split: option.splits)
  from assms(2) ks obtain j where j: "j < range_len a b st" and k: "k = nat (a + int j * st)"
    by auto
  from range_index_bounds [OF st0 j] a b st0
  have "0 \<le> a + int j * st \<and> a + int j * st < int n"
    by (auto simp: lower_def upper_def split: if_splits)
  with k show ?thesis by (simp add: nat_less_iff)
qed

lemma list_getslice_nonneg:
  assumes "0 \<le> i" and "0 \<le> j"
  shows "list_getslice xs (Some i) (Some j) None = Inr (drop (nat i) (take (nat j) xs))"
proof -
  let ?n = "int (length xs)"
  let ?a = "min i ?n" and ?b = "min j ?n"
  have idx: "slice_indices (Some i) (Some j) None (length xs)
           = Inr (map (\<lambda>k. nat (?a + int k)) [0..<nat (?b - ?a)])"
    using assms by (auto simp: slice_indices_def Let_def range_len_def)
  have "map (\<lambda>k. xs ! k) (map (\<lambda>k. nat (?a + int k)) [0..<nat (?b - ?a)])
        = drop (nat i) (take (nat j) xs)"
  proof (rule nth_equalityI)
    show "length (map (\<lambda>k. xs ! k) (map (\<lambda>k. nat (?a + int k)) [0..<nat (?b - ?a)]))
          = length (drop (nat i) (take (nat j) xs))"
      using assms by (auto simp: min_def)
  next
    fix k
    assume "k < length (map (\<lambda>k. xs ! k) (map (\<lambda>k. nat (?a + int k)) [0..<nat (?b - ?a)]))"
    then have k: "k < nat (?b - ?a)" by simp
    with assms have "nat (?a + int k) = nat i + k" by (auto simp: min_def nat_add_distrib)
    moreover from k assms have "nat i + k < nat j" "nat i + k < length xs"
      by (auto simp: min_def split: if_splits)
    ultimately show "map (\<lambda>k. xs ! k) (map (\<lambda>k. nat (?a + int k)) [0..<nat (?b - ?a)]) ! k
          = drop (nat i) (take (nat j) xs) ! k"
      using k by (simp add: min_def)
  qed
  with idx show ?thesis by (simp add: list_getslice_def)
qed

lemma getitem_slice:
  assumes "ts_invariant ts" and "step \<noteq> Some 0"
  shows "\<exists>r ks. getitem ts (SliceIndex start stop step) = Inr (NewSeries r)
            \<and> slice_indices start stop step (ts_len ts) = Inr ks
            \<and> (\<forall>k \<in> set ks. k < ts_len ts)
            \<and> ts_value r = map (\<lambda>k. ts_value ts ! k) ks
            \<and> seq_elems (ts_time r) = map (\<lambda>k. seq_elems (ts_time ts) ! k) ks
            \<and> list_getslice (ts_value ts) start stop step = Inr (ts_value r)
            \<and> list_getslice (seq_elems (ts_time ts)) start stop step = Inr (seq_elems (ts_time r))"
proof -
  from assms(2) obtain ks where ks: "slice_indices start stop step (ts_len ts) = Inr ks"
    using slice_indices_defined by blast
  then have range: "\<forall>k \<in> set ks. k < ts_len ts"
    using slice_indices_in_range by blast
  let ?vs = "map (\<lambda>k. ts_value ts ! k) ks" and ?tm = "map (\<lambda>k. seq_elems (ts_time ts) ! k) ks"
  from assms(1) have len: "length (seq_elems (ts_time ts)) = length (ts_value ts)"
    by (simp add: ts_invariant_def)
  have v: "list_getslice (ts_value ts) start stop step = Inr ?vs"
    using ks by (simp add: list_getslice_def ts_len_def)
  have t: "list_getslice (seq_elems (ts_time ts)) start stop step = Inr ?tm"
    using ks len by (simp add: list_getslice_def ts_len_def)
  have "length ?tm = length ?vs" by simp
  from init_aligned [OF this] obtain r where
    r: "TimeSeries_init (PySeq ?vs) (PySeq ?tm) = Inr r" "seq_elems (ts_time r) = ?tm"
       "ts_value r = ?vs" by blast
  then have "getitem ts (SliceIndex start stop step) = Inr (NewSeries r)"
    using v t by (simp add: getitem_def seq_getslice_def)
  with ks range v t r show ?thesis by simp
qed

section \<open>Facts about the binary operators and the default index\<close>

lemma py_ne_same: "\<not> py_ne s s"
  by (cases s) simp_all

lemma py_ne_elems: "seq_elems s \<noteq> seq_elems s' \<Longrightarrow> py_ne s s'"
  by (cases s; cases s') (simp_all add: seq_elems_def)

lemma py_ne_same_storage:
  "py_ne (TList xs) (TList ys) = (seq_elems (TList xs) \<noteq> seq_elems (TList ys))"
  "py_ne (TRange a b) (TRange c d) = (seq_elems (TRange a b) \<noteq> seq_elems (TRange c d))"
  by (simp_all add: seq_elems_def)

lemma pointwise_init:
  assumes "ts_invariant a" and "length (ts_value b) = length (ts_value a)"
  shows "\<exists>r. TimeSeries_init (PySeq (map f (zip (ts_value a) (ts_value b))))
                (as_pyobj (ts_time a)) = Inr r
             \<and> seq_elems (ts_time r) = seq_elems (ts_time a)
             \<and> ts_value r = map f (zip (ts_value a) (ts_value b))"
proof -
  from assms have "length (seq_elems (ts_time a)) = length (map f (zip (ts_value a) (ts_value b)))"
    by (simp add: ts_invariant_def)
  from init_aligned [OF this] show ?thesis by (auto simp: as_pyobj_def)
qed

lemma misaligned_same_storage:
  assumes "ts_invariant a" and "ts_invariant b"
    and "(\<exists>xs ys. ts_time a = TList xs \<and> ts_time b = TList ys)
         \<or> (\<exists>lo hi lo' hi'. ts_time a = TRange lo hi \<and> ts_time b = TRange lo' hi')"
  shows "misaligned a b = (seq_elems (ts_time a) \<noteq> seq_elems (ts_time b))"
proof -
  from assms(3) have "py_ne (ts_time a) (ts_time b) = (seq_elems (ts_time a) \<noteq> seq_elems (ts_time b))"
    by (auto simp: seq_elems_def)
  moreover from assms(1,2) have "seq_elems (ts_time a) \<noteq> seq_elems (ts_time b)"
    if "ts_len a \<noteq> ts_len b"
    using that by (auto simp: ts_invariant_def ts_len_def)
  ultimately show ?thesis by (auto simp: misaligned_def)
qed

lemma binop_raises_iff_same_storage:
  assumes "ts_invariant a" and "ts_invariant b"
    and "(\<exists>xs ys. ts_time a = TList xs \<and> ts_time b = TList ys)
         \<or> (\<exists>lo hi lo' hi'. ts_time a = TRange lo hi \<and> ts_time b = TRange lo' hi')"
  shows "(ts_add a (TS b) = Inl ValueError) = (seq_elems (ts_time a) \<noteq> seq_elems (ts_time b))"
    and "(ts_sub a (TS b) = Inl ValueError) = (seq_elems (ts_time a) \<noteq> seq_elems (ts_time b))"
    and "(ts_mul a (TS b) = Inl ValueError) = (seq_elems (ts_time a) \<noteq> seq_elems (ts_time b))"
    and "(ts_eq a (TS b) = Inl ValueError) = (seq_elems (ts_time a) \<noteq> seq_elems (ts_time b))"
proof -
  note m = misaligned_same_storage [OF assms]
  have len: "length (ts_value b) = length (ts_value a)" if "\<not> misaligned a b"
    using that by (auto simp: misaligned_def ts_len_def split: if_splits)
  show "(ts_add a (TS b) = Inl ValueError) = (seq_elems (ts_time a) \<noteq> seq_elems (ts_time b))"
    using m pointwise_init [OF assms(1) len, of "\<lambda>t. fst t + snd t"] by (auto simp: ts_add_def)
  show "(ts_sub a (TS b) = Inl ValueError) = (seq_elems (ts_time a) \<noteq> seq_elems (ts_time b))"
    using m pointwise_init [OF assms(1) len, of "\<lambda>t. fst t - snd t"] by (auto simp: ts_sub_def)
  show "(ts_mul a (TS b) = Inl ValueError) = (seq_elems (ts_time a) \<noteq> seq_elems (ts_time b))"
    using m pointwise_init [OF assms(1) len, of "\<lambda>t. fst t * snd t"] by (auto simp: ts_mul_def)
  show "(ts_eq a (TS b) = Inl ValueError) = (seq_elems (ts_time a) \<noteq> seq_elems (ts_time b))"
    using m by (auto simp: ts_eq_def)
qed

lemma aligned_same_time:
  assumes "ts_invariant a" and "ts_invariant b" and "ts_time a = ts_time b"
  shows "\<not> misaligned a b" and "length (ts_value b) = length (ts_value a)"
  using assms by (simp_all add: misaligned_def ts_invariant_def ts_len_def py_ne_same)

lemma default_index_when_falsy:
  assumes "\<not> truthy t"
  shows "TimeSeries [PySeq vs, t] =
           Inr \<lparr>ts_time = TRange 1 (int (length vs) + 1), ts_value = vs,
                ts_timeseries = zip (map (\<lambda>k. of_nat (k + 1)) [0..<length vs]) vs\<rparr>"
  using assms
  by (simp add: TimeSeries_def TimeSeries_init_def list_of_def isinstance_Sequence_def
      seq_elems_def Let_def)

lemma default_index_getitem:
  assumes "\<not> truthy t" and "TimeSeries [PySeq vs, t] = Inr ts" and "i < length vs"
  shows "seq_elems (ts_time ts) = map (\<lambda>k. of_nat (k + 1)) [0..<length vs]"
    and "getitem ts (IntIndex (int i)) = Inr (TimeValue (of_nat (i + 1), vs ! i))"
  using assms
  by (auto simp: default_index_when_falsy seq_elems_def getitem_def list_getitem_def py_index_def)

section \<open>Facts about the interpolation loops\<close>

lemma scan_exhausted: "\<not> c < n \<Longrightarrow> scan time val n t c = Inr (c, None)"
  by (simp add: scan.simps)

lemma scan_left_clamp:
  assumes "c < n" and "t < time ! 0" and "0 < length val"
  shows "scan time val n t c = Inr (c, Some (val ! 0))"
  using assms by (simp add: scan.simps [of time val n t c] loop_body_def)

lemma scan_right_clamp:
  assumes "c < n" and "\<not> t < time ! 0" and "time ! (n - 1) < t" and "n - 1 < length val"
  shows "scan time val n t c = Inr (c, Some (val ! (n - 1)))"
  using assms by (simp add: scan.simps [of time val n t c] loop_body_def)

lemma scan_mono: "scan time val n t c = Inr (c', r) \<Longrightarrow> c \<le> c'"
proof (induction time val n t c rule: scan.induct)
  case (1 time val n t counter)
  show ?case
  proof (cases "counter < n")
    case False
    with "1.prems" show ?thesis by (simp add: scan.simps [of time val n t counter])
  next
    case True
    show ?thesis
    proof (cases "loop_body time val n t counter")
      case (Append v)
      with True "1.prems" show ?thesis by (simp add: scan.simps [of time val n t counter])
    next
      case Advance
      with True "1.prems" have "scan time val n t (counter + 1) = Inr (c', r)"
        by (simp add: scan.simps [of time val n t counter])
      with "1.IH" True Advance have "counter + 1 \<le> c'" by simp
      then show ?thesis by simp
    next
      case (Raise e)
      with True "1.prems" show ?thesis by (simp add: scan.simps [of time val n t counter])
    qed
  qed
qed

lemma scan_None: "scan time val n t c = Inr (c', None) \<Longrightarrow> n \<le> c'"
proof (induction time val n t c rule: scan.induct)
  case (1 time val n t counter)
  show ?case
  proof (cases "counter < n")
    case False
    with "1.prems" show ?thesis by (simp add: scan.simps [of time val n t counter])
  next
    case True
    show ?thesis
    proof (cases "loop_body time val n t counter")
      case (Append v)
      with True "1.prems" show ?thesis by (simp add: scan.simps [of time val n t counter])
    next
      case Advance
      with True "1.prems" have "scan time val n t (counter + 1) = Inr (c', None)"
        by (simp add: scan.simps [of time val n t counter])
      with "1.IH" True Advance show ?thesis by simp
    next
      case (Raise e)
      with True "1.prems" show ?thesis by (simp add: scan.simps [of time val n t counter])
    qed
  qed
qed

lemma interp_loop_append:
  "interp_loop time val n (xs @ ys) c acc =
     (case interp_loop time val n xs c acc of
        Inl e \<Rightarrow> Inl e
      | Inr (c', acc') \<Rightarrow> interp_loop time val n ys c' acc')"
  by (induction xs arbitrary: c acc) (auto split: sum.splits option.splits)

lemma interp_loop_exhausted:
  "n \<le> c \<Longrightarrow> interp_loop time val n xs c acc = Inr (c, acc)"
  by (induction xs) (auto simp: scan_exhausted)

lemma interp_loop_result:
  "interp_loop time val n xs c acc = Inr (c', acc') \<Longrightarrow>
     c \<le> c' \<and> length acc \<le> length acc' \<and> length acc' \<le> length acc + length xs"
proof (induction xs arbitrary: c acc)
  case Nil
  then show ?case by simp
next
  case (Cons t xs)
  from Cons.prems obtain c1 r where s: "scan time val n t c = Inr (c1, r)"
    by (auto split: sum.splits)
  then have m: "c \<le> c1" by (rule scan_mono)
  show ?case
  proof (cases r)
    case None
    with s Cons.prems have "interp_loop time val n xs c1 acc = Inr (c', acc')" by simp
    from Cons.IH [OF this] m show ?thesis by simp
  next
    case (Some v)
    with s Cons.prems have "interp_loop time val n xs c1 (acc @ [v]) = Inr (c', acc')" by simp
    from Cons.IH [OF this] m show ?thesis by simp
  qed
qed

lemma interp_loop_snoc:
  assumes "interp_loop time val n qs c0 acc = Inr (c, vs)"
    and "scan time val n t c = Inr (c', r)"
  shows "interp_loop time val n (qs @ [t]) c0 acc
           = Inr (c', case r of None \<Rightarrow> vs | Some v \<Rightarrow> vs @ [v])"
  using assms by (simp add: interp_loop_append split: option.splits)

lemma interpolate_all_matched:
  assumes "interp_loop (seq_elems (ts_time ts)) (ts_value ts) (length (seq_elems (ts_time ts)))
             qs 1 [] = Inr (c, vs)"
    and "length vs = length qs" and "qs \<noteq> []"
  shows "interpolate ts qs =
           Inr \<lparr>ts_time = TList qs, ts_value = vs, ts_timeseries = zip qs vs\<rparr>"
  using assms
  by (simp add: interpolate_def TimeSeries_init_def truthy_def list_of_def isinstance_Sequence_def)

lemma interpolate_some_unmatched:
  assumes "interp_loop (seq_elems (ts_time ts)) (ts_value ts) (length (seq_elems (ts_time ts)))
             qs 1 [] = Inr (c, vs)"
    and "length vs \<noteq> length qs"
  shows "interpolate ts qs = Inl ValueError"
proof -
  from interp_loop_result [OF assms(1)] assms(2) have "qs \<noteq> []" by auto
  with assms show ?thesis
    by (simp add: interpolate_def TimeSeries_init_def truthy_def list_of_def
        isinstance_Sequence_def)
qed

section \<open>Where clamping and elementwise arithmetic succeed\<close>

text \<open>
  Where the clamp branches are reached. Let the queries before \<open>t\<close> have left the cursor at
  \<open>c\<close>, still below the number \<open>n\<close> of pairs. If \<open>t\<close> is less than the first original
  time, the value appended for \<open>t\<close> is the first original value; if \<open>t\<close> is not less than
  the first original time and greater than the last, it is the last original value. The
  cursor does not move.
\<close>

lemma clamp_below_exhaustion:
  fixes ts :: timeseries
  defines "time \<equiv> seq_elems (ts_time ts)" and "val \<equiv> ts_value ts" and "n \<equiv> ts_len ts"
  assumes inv: "ts_invariant ts"
    and prev: "interp_loop time val n qs 1 [] = Inr (c, vs)"
    and live: "c < n"
  shows "(t < time ! 0 \<longrightarrow>
            interp_loop time val n (qs @ [t]) 1 [] = Inr (c, vs @ [val ! 0])
          \<and> (length vs = length qs \<longrightarrow>
                interpolate ts (qs @ [t]) =
                  Inr \<lparr>ts_time = TList (qs @ [t]), ts_value = vs @ [val ! 0],
                       ts_timeseries = zip (qs @ [t]) (vs @ [val ! 0])\<rparr>))
       \<and> (time ! 0 \<le> t \<and> time ! (n - 1) < t \<longrightarrow>
            interp_loop time val n (qs @ [t]) 1 [] = Inr (c, vs @ [val ! (n - 1)])
          \<and> (length vs = length qs \<longrightarrow>
                interpolate ts (qs @ [t]) =
                  Inr \<lparr>ts_time = TList (qs @ [t]), ts_value = vs @ [val ! (n - 1)],
                       ts_timeseries = zip (qs @ [t]) (vs @ [val ! (n - 1)])\<rparr>))"
proof -
  from inv have len: "length time = n" "length val = n"
    by (simp_all add: ts_invariant_def time_def val_def n_def ts_len_def)
  have result: "interp_loop time val n (qs @ [t]) 1 [] = Inr (c, vs @ [v])
          \<and> (length vs = length qs \<longrightarrow>
                interpolate ts (qs @ [t]) =
                  Inr \<lparr>ts_time = TList (qs @ [t]), ts_value = vs @ [v],
                       ts_timeseries = zip (qs @ [t]) (vs @ [v])\<rparr>)"
    if s: "scan time val n t c = Inr (c, Some v)" for v
  proof -
    from interp_loop_snoc [OF prev s]
    have loop: "interp_loop time val n (qs @ [t]) 1 [] = Inr (c, vs @ [v])" by simp
    have "interpolate ts (qs @ [t]) =
                  Inr \<lparr>ts_time = TList (qs @ [t]), ts_value = vs @ [v],
                       ts_timeseries = zip (qs @ [t]) (vs @ [v])\<rparr>"
      if "length vs = length qs"
      using loop that len
      by (intro interpolate_all_matched [where c = c]) (simp_all add: time_def val_def)
    with loop show ?thesis by simp
  qed
  have left: "scan time val n t c = Inr (c, Some (val ! 0))" if "t < time ! 0"
    using live that len by (intro scan_left_clamp) simp_all
  have right: "scan time val n t c = Inr (c, Some (val ! (n - 1)))"
    if "time ! 0 \<le> t" and "time ! (n - 1) < t"
    using live that len by (intro scan_right_clamp) simp_all
  from result left right show ?thesis by blast
qed

text \<open>
  \<^verbatim>\<open>TimeSeries([1,2,3], [0,5,10]).interpolate([-100, 100])\<close> yields the values \<open>[1, 3]\<close>.
\<close>

lemma clamp_example:
  "ts_invariant \<lparr>ts_time = TList [0, 5, 10], ts_value = [1, 2, 3],
             ts_timeseries = [(0, 1), (5, 2), (10, 3)]\<rparr>
   \<and> interpolate \<lparr>ts_time = TList [0, 5, 10], ts_value = [1, 2, 3],
             ts_timeseries = [(0, 1), (5, 2), (10, 3)]\<rparr> [- 100] =
       Inr \<lparr>ts_time = TList [- 100], ts_value = [1], ts_timeseries = [(- 100, 1)]\<rparr>
   \<and> interp_loop [0, 5, 10] [1, 2, 3] 3 [- 100] 1 [] = Inr (1, [1])
   \<and> interpolate \<lparr>ts_time = TList [0, 5, 10], ts_value = [1, 2, 3],
             ts_timeseries = [(0, 1), (5, 2), (10, 3)]\<rparr> [- 100, 100] =
       Inr \<lparr>ts_time = TList [- 100, 100], ts_value = [1, 3],
            ts_timeseries = [(- 100, 1), (100, 3)]\<rparr>"
proof -
  let ?t = "\<lparr>ts_time = TList [0, 5, 10], ts_value = [1, 2, 3],
             ts_timeseries = [(0, 1), (5, 2), (10, 3)]\<rparr>"
  have inv: "ts_invariant ?t" by (simp add: ts_invariant_def seq_elems_def)
  have start: "interp_loop (seq_elems (ts_time ?t)) (ts_value ?t) (ts_len ?t) [] 1 [] = Inr (1, [])"
    by simp
  have live: "1 < ts_len ?t" by (simp add: ts_len_def)
  from clamp_below_exhaustion [OF inv start live, of "- 100"]
  have one: "interp_loop [0, 5, 10] [1, 2, 3] 3 [- 100] 1 [] = Inr (1, [1])
     \<and> interpolate ?t [- 100] =
       Inr \<lparr>ts_time = TList [- 100], ts_value = [1], ts_timeseries = [(- 100, 1)]\<rparr>"
    by (simp add: seq_elems_def ts_len_def numeral_3_eq_3)
  then have prev: "interp_loop (seq_elems (ts_time ?t)) (ts_value ?t) (ts_len ?t) [- 100] 1 []
      = Inr (1, [1])"
    by (simp add: seq_elems_def ts_len_def numeral_3_eq_3)
  from clamp_below_exhaustion [OF inv prev live, of 100]
  have two: "interpolate ?t [- 100, 100] =
       Inr \<lparr>ts_time = TList [- 100, 100], ts_value = [1, 3],
            ts_timeseries = [(- 100, 1), (100, 3)]\<rparr>"
    by (simp add: seq_elems_def ts_len_def numeral_3_eq_3)
  from inv one two show ?thesis by simp
qed

text \<open>
  Two series that store the same time sequence (the same list, or the same default range)
  pass the alignment test, and \<^verbatim>\<open>+\<close>, \<^verbatim>\<open>-\<close> and \<^verbatim>\<open>*\<close> return a series with these times
  whose values are the results of the operator at each index.
\<close>

lemma same_storage_arithmetic:
  assumes "ts_invariant a" and "ts_invariant b" and "ts_time a = ts_time b"
  shows "\<exists>s d p. ts_add a (TS b) = Inr s \<and> ts_sub a (TS b) = Inr d \<and> ts_mul a (TS b) = Inr p
           \<and> seq_elems (ts_time s) = seq_elems (ts_time a)
           \<and> seq_elems (ts_time d) = seq_elems (ts_time a)
           \<and> seq_elems (ts_time p) = seq_elems (ts_time a)
           \<and> ts_len s = ts_len a \<and> ts_len d = ts_len a \<and> ts_len p = ts_len a
           \<and> (\<forall>i. i < ts_len a \<longrightarrow>
                  ts_value s ! i = ts_value a ! i + ts_value b ! i
                \<and> ts_value d ! i = ts_value a ! i - ts_value b ! i
                \<and> ts_value p ! i = ts_value a ! i * ts_value b ! i)"
proof -
  note al = aligned_same_time [OF assms]
  from pointwise_init [OF assms(1) al(2)] obtain s where
    s: "ts_add a (TS b) = Inr s" "seq_elems (ts_time s) = seq_elems (ts_time a)"
       "ts_value s = map (\<lambda>t. fst t + snd t) (zip (ts_value a) (ts_value b))"
    using al(1) by (auto simp: ts_add_def)
  from pointwise_init [OF assms(1) al(2)] obtain d where
    d: "ts_sub a (TS b) = Inr d" "seq_elems (ts_time d) = seq_elems (ts_time a)"
       "ts_value d = map (\<lambda>t. fst t - snd t) (zip (ts_value a) (ts_value b))"
    using al(1) by (auto simp: ts_sub_def)
  from pointwise_init [OF assms(1) al(2)] obtain p where
    p: "ts_mul a (TS b) = Inr p" "seq_elems (ts_time p) = seq_elems (ts_time a)"
       "ts_value p = map (\<lambda>t. fst t * snd t) (zip (ts_value a) (ts_value b))"
    using al(1) by (auto simp: ts_mul_def)
  have "ts_len s = ts_len a" "ts_len d = ts_len a" "ts_len p = ts_len a"
    using s(3) d(3) p(3) al(2) by (simp_all add: ts_len_def)
  moreover have "ts_value s ! i = ts_value a ! i + ts_value b ! i
                \<and> ts_value d ! i = ts_value a ! i - ts_value b ! i
                \<and> ts_value p ! i = ts_value a ! i * ts_value b ! i" if "i < ts_len a" for i
    using that s(3) d(3) p(3) al(2) by (simp add: ts_len_def)
  ultimately show ?thesis using s(1,2) d(1,2) p(1,2) by blast
qed

section \<open>C1: the value interpolated inside a bracket\<close>

text \<open>
  Claim C1 is about the number that line 162 computes,
  \<^verbatim>\<open>t + t * ((value[k] - value[k-1]) / (time[k] - time[k-1]))\<close>. In Python this is
  floating-point arithmetic: the true division rounds to a double, so for
  \<^verbatim>\<open>TimeSeries([1,8], [0,5]).interpolate([3])\<close> the result is the double
  \<^verbatim>\<open>7.199999999999999\<close> and not \<open>36/5\<close>, and for integers too large for a double the
  division raises \<^verbatim>\<open>OverflowError\<close>. Rounding, infinities and NaN are outside this
  embedding, so no theorem about that number is stated here. What the embedding does show
  about the scan is which bracket answers a query: \<open>scan\<close> stops at the first bracket at or
  after the cursor whose ends enclose \<open>t\<close>, so a query time where two brackets meet is
  answered from the earlier one.
\<close>

section \<open>C2: clamping of query times outside the original times\<close>

text \<open>
  Claim C2 says that for every TimeSeries a query time less than the first original time
  yields the first original value, and one greater than the last yields the last. For a
  series of at least two pairs the first query is clamped so (lemmas
  \<open>clamp_below_exhaustion\<close> and \<open>clamp_example\<close> above): \<^verbatim>\<open>TimeSeries([7,8], [3,4])\<close>
  answers the query time 0 with 7. For a series of one pair it fails: in
  \<^verbatim>\<open>TimeSeries([7], [3])\<close> the query time 0 is less than the first original time 3, but the
  clamp branches stand inside \<^verbatim>\<open>while counter < n\<close> with \<open>counter = n = 1\<close> and never run,
  no value is appended, and \<^verbatim>\<open>interpolate([0])\<close> raises \<^verbatim>\<open>ValueError\<close> from the
  constructor instead of returning a series with the value 7.
\<close>

theorem single_pair_is_not_clamped:
  "TimeSeries [PySeq [7], PySeq [3]] =
     Inr \<lparr>ts_time = TList [3], ts_value = [7], ts_timeseries = [(3, 7)]\<rparr>
   \<and> (0 :: rat) < seq_elems (ts_time \<lparr>ts_time = TList [3], ts_value = [7],
                                        ts_timeseries = [(3, 7)]\<rparr>) ! 0
   \<and> interpolate \<lparr>ts_time = TList [3], ts_value = [7], ts_timeseries = [(3, 7)]\<rparr> [0]
       = Inl ValueError
   \<and> TimeSeries [PySeq [7, 8], PySeq [3, 4]] =
     Inr \<lparr>ts_time = TList [3, 4], ts_value = [7, 8], ts_timeseries = [(3, 7), (4, 8)]\<rparr>
   \<and> interpolate \<lparr>ts_time = TList [3, 4], ts_value = [7, 8],
                   ts_timeseries = [(3, 7), (4, 8)]\<rparr> [0]
       = Inr \<lparr>ts_time = TList [0], ts_value = [7], ts_timeseries = [(0, 7)]\<rparr>"
  by (simp add: TimeSeries_explicit interpolate_def seq_elems_def scan.simps loop_body_def
      TimeSeries_init_def truthy_def list_of_def isinstance_Sequence_def)

section \<open>C3: elementwise arithmetic on series with identical time sequences\<close>

text \<open>
  Claim C3 says that for two TimeSeries with identical time sequences \<^verbatim>\<open>a + b\<close>, \<^verbatim>\<open>a - b\<close>
  and \<^verbatim>\<open>a * b\<close> return a new TimeSeries with these times and the values combined index by
  index. For two series that store their times the same way this is so (lemma
  \<open>same_storage_arithmetic\<close> above). It fails when one of them stores the default range:
  \<^verbatim>\<open>a = TimeSeries([1,2,3], [])\<close> stores \<^verbatim>\<open>range(1, 4)\<close>, and its copy \<^verbatim>\<open>+a\<close>, like
  \<^verbatim>\<open>TimeSeries([1,2,3], [1,2,3])\<close>, stores the list \<^verbatim>\<open>[1, 2, 3]\<close>. The time sequences are
  the same element for element, yet \<^verbatim>\<open>(+a) + a\<close>, \<^verbatim>\<open>(+a) - a\<close>, \<^verbatim>\<open>(+a) * a\<close> and
  \<^verbatim>\<open>a + (+a)\<close> raise \<^verbatim>\<open>ValueError\<close> instead of returning the series of the values
  \<open>[2, 4, 6]\<close>, \<open>[0, 0, 0]\<close> and \<open>[1, 4, 9]\<close>.
\<close>

theorem copy_of_default_index_is_misaligned:
  "TimeSeries [PySeq [1, 2, 3], PySeq []] =
     Inr \<lparr>ts_time = TRange 1 4, ts_value = [1, 2, 3], ts_timeseries = [(1, 1), (2, 2), (3, 3)]\<rparr>
   \<and> ts_pos \<lparr>ts_time = TRange 1 4, ts_value = [1, 2, 3],
              ts_timeseries = [(1, 1), (2, 2), (3, 3)]\<rparr> =
     Inr \<lparr>ts_time = TList [1, 2, 3], ts_value = [1, 2, 3],
          ts_timeseries = [(1, 1), (2, 2), (3, 3)]\<rparr>
   \<and> seq_elems (TList [1, 2, 3]) = seq_elems (TRange 1 4)
   \<and> ts_add \<lparr>ts_time = TList [1, 2, 3], ts_value = [1, 2, 3],
              ts_timeseries = [(1, 1), (2, 2), (3, 3)]\<rparr>
        (TS \<lparr>ts_time = TRange 1 4, ts_value = [1, 2, 3],
              ts_timeseries = [(1, 1), (2, 2), (3, 3)]\<rparr>) = Inl ValueError
   \<and> ts_sub \<lparr>ts_time = TList [1, 2, 3], ts_value = [1, 2, 3],
              ts_timeseries = [(1, 1), (2, 2), (3, 3)]\<rparr>
        (TS \<lparr>ts_time = TRange 1 4, ts_value = [1, 2, 3],
              ts_timeseries = [(1, 1), (2, 2), (3, 3)]\<rparr>) = Inl ValueError
   \<and> ts_mul \<lparr>ts_time = TList [1, 2, 3], ts_value = [1, 2, 3],
              ts_timeseries = [(1, 1), (2, 2), (3, 3)]\<rparr>
        (TS \<lparr>ts_time = TRange 1 4, ts_value = [1, 2, 3],
              ts_timeseries = [(1, 1), (2, 2), (3, 3)]\<rparr>) = Inl ValueError
   \<and> ts_add \<lparr>ts_time = TRange 1 4, ts_value = [1, 2, 3],
              ts_timeseries = [(1, 1), (2, 2), (3, 3)]\<rparr>
        (TS \<lparr>ts_time = TList [1, 2, 3], ts_value = [1, 2, 3],
              ts_timeseries = [(1, 1), (2, 2), (3, 3)]\<rparr>) = Inl ValueError"
  by code_simp

section \<open>C4: when the binary operators raise ValueError\<close>

text \<open>
  Claim C4 says that a binary operator raises \<^verbatim>\<open>ValueError\<close> exactly when the two time
  sequences are not equal element for element, however each series was constructed. For
  two series that both store a list, or both store the default range, this is so (lemma
  \<open>binop_raises_iff_same_storage\<close> above). It fails for a series with the default index
  against a series with the equal explicit list: \<^verbatim>\<open>TimeSeries([1,2,3], [])\<close> stores
  \<^verbatim>\<open>range(1, 4)\<close>, \<^verbatim>\<open>TimeSeries([1,2,3], [1,2,3])\<close> stores the list \<^verbatim>\<open>[1, 2, 3]\<close>. The two
  time sequences are equal element for element and of equal length, yet \<^verbatim>\<open>+\<close>, \<^verbatim>\<open>-\<close>,
  \<^verbatim>\<open>*\<close> and \<^verbatim>\<open>==\<close> all raise \<^verbatim>\<open>ValueError\<close>, because a range object never compares equal
  to a list.
\<close>

theorem default_index_against_equal_list:
  "TimeSeries [PySeq [1, 2, 3], PySeq []] =
     Inr \<lparr>ts_time = TRange 1 4, ts_value = [1, 2, 3], ts_timeseries = [(1, 1), (2, 2), (3, 3)]\<rparr>
   \<and> TimeSeries [PySeq [1, 2, 3], PySeq [1, 2, 3]] =
     Inr \<lparr>ts_time = TList [1, 2, 3], ts_value = [1, 2, 3],
          ts_timeseries = [(1, 1), (2, 2), (3, 3)]\<rparr>
   \<and> seq_elems (TRange 1 4) = seq_elems (TList [1, 2, 3])
   \<and> ts_add \<lparr>ts_time = TRange 1 4, ts_value = [1, 2, 3],
              ts_timeseries = [(1, 1), (2, 2), (3, 3)]\<rparr>
        (TS \<lparr>ts_time = TList [1, 2, 3], ts_value = [1, 2, 3],
              ts_timeseries = [(1, 1), (2, 2), (3, 3)]\<rparr>) = Inl ValueError
   \<and> ts_sub \<lparr>ts_time = TRange 1 4, ts_value = [1, 2, 3],
              ts_timeseries = [(1, 1), (2, 2), (3, 3)]\<rparr>
        (TS \<lparr>ts_time = TList [1, 2, 3], ts_value = [1, 2, 3],
              ts_timeseries = [(1, 1), (2, 2), (3, 3)]\<rparr>) = Inl ValueError
   \<and> ts_mul \<lparr>ts_time = TRange 1 4, ts_value = [1, 2, 3],
              ts_timeseries = [(1, 1), (2, 2), (3, 3)]\<rparr>
        (TS \<lparr>ts_time = TList [1, 2, 3], ts_value = [1, 2, 3],
              ts_timeseries = [(1, 1), (2, 2), (3, 3)]\<rparr>) = Inl ValueError
   \<and> ts_eq \<lparr>ts_time = TRange 1 4, ts_value = [1, 2, 3],
              ts_timeseries = [(1, 1), (2, 2), (3, 3)]\<rparr>
        (TS \<lparr>ts_time = TList [1, 2, 3], ts_value = [1, 2, 3],
              ts_timeseries = [(1, 1), (2, 2), (3, 3)]\<rparr>) = Inl ValueError"
  by code_simp

section \<open>C5: an operand that is not a TimeSeries\<close>

text \<open>
  Claim C5. For every TimeSeries \<open>a\<close> and every operand \<open>x\<close> that is not a TimeSeries,
  \<^verbatim>\<open>a + x\<close>, \<^verbatim>\<open>a - x\<close>, \<^verbatim>\<open>a * x\<close> and \<^verbatim>\<open>a == x\<close> raise \<^verbatim>\<open>TypeError\<close>. Equality with a
  series \<open>b\<close> whose time domain is not aligned with that of \<open>a\<close> (the lengths differ, or the
  times differ somewhere) raises \<^verbatim>\<open>ValueError\<close>; so in neither case does equality return
  \<^verbatim>\<open>False\<close>.
\<close>

theorem non_series_operand_raises:
  "ts_add a (NotTS x) = Inl TypeError
   \<and> ts_sub a (NotTS x) = Inl TypeError
   \<and> ts_mul a (NotTS x) = Inl TypeError
   \<and> ts_eq a (NotTS x) = Inl TypeError
   \<and> (ts_len a \<noteq> ts_len b \<or> seq_elems (ts_time a) \<noteq> seq_elems (ts_time b)
        \<longrightarrow> ts_eq a (TS b) = Inl ValueError)"
proof -
  have "misaligned a b"
    if "ts_len a \<noteq> ts_len b \<or> seq_elems (ts_time a) \<noteq> seq_elems (ts_time b)"
    using that py_ne_elems [of "ts_time a" "ts_time b"] by (auto simp: misaligned_def)
  then show ?thesis
    by (simp add: ts_add_def ts_sub_def ts_mul_def ts_eq_def)
qed

text \<open>
  The theorem at \<^verbatim>\<open>TimeSeries([1,2], [0,1])\<close> against the number 5, the list \<^verbatim>\<open>[1,2]\<close> and
  the series \<^verbatim>\<open>TimeSeries([1,2], [0,2])\<close>.
\<close>

theorem non_series_operand_witness:
  "ts_eq \<lparr>ts_time = TList [0, 1], ts_value = [1, 2], ts_timeseries = [(0, 1), (1, 2)]\<rparr>
        (NotTS (PyNum 5)) = Inl TypeError
   \<and> ts_add \<lparr>ts_time = TList [0, 1], ts_value = [1, 2], ts_timeseries = [(0, 1), (1, 2)]\<rparr>
        (NotTS (PySeq [1, 2])) = Inl TypeError
   \<and> seq_elems (ts_time \<lparr>ts_time = TList [0, 1], ts_value = [1, 2],
                          ts_timeseries = [(0, 1), (1, 2)]\<rparr>)
       \<noteq> seq_elems (ts_time \<lparr>ts_time = TList [0, 2], ts_value = [1, 2],
                          ts_timeseries = [(0, 1), (2, 2)]\<rparr>)
   \<and> ts_eq \<lparr>ts_time = TList [0, 1], ts_value = [1, 2], ts_timeseries = [(0, 1), (1, 2)]\<rparr>
        (TS \<lparr>ts_time = TList [0, 2], ts_value = [1, 2], ts_timeseries = [(0, 1), (2, 2)]\<rparr>)
       = Inl ValueError"
  using non_series_operand_raises
    [of "\<lparr>ts_time = TList [0, 1], ts_value = [1, 2], ts_timeseries = [(0, 1), (1, 2)]\<rparr>"
        "PyNum 5"
        "\<lparr>ts_time = TList [0, 2], ts_value = [1, 2], ts_timeseries = [(0, 1), (2, 2)]\<rparr>"]
    non_series_operand_raises
    [of "\<lparr>ts_time = TList [0, 1], ts_value = [1, 2], ts_timeseries = [(0, 1), (1, 2)]\<rparr>"
        "PySeq [1, 2]"
        "\<lparr>ts_time = TList [0, 2], ts_value = [1, 2], ts_timeseries = [(0, 1), (2, 2)]\<rparr>"]
  by (simp add: seq_elems_def)

section \<open>C6: the invariant is established by construction and kept by every operation\<close>

text \<open>
  Claim C6. Every TimeSeries that the constructor returns satisfies the invariant: the stored
  times and values have the same length, and the pair view is the zip of the times and the
  values (pair \<open>i\<close> is \<open>(times[i], values[i])\<close>). \<^verbatim>\<open>__setitem__\<close> keeps the invariant whatever
  the index is and however the call ends, never changes the length or the times, and for
  a valid integer index (one that denotes position \<open>k\<close>) it sets both \<open>values[k]\<close> and pair
  \<open>k\<close>. Every series returned by slicing, \<^verbatim>\<open>interpolate\<close>, \<^verbatim>\<open>+\<close>, \<^verbatim>\<open>-\<close>, \<^verbatim>\<open>*\<close>, unary
  minus and unary plus satisfies the invariant as well.
\<close>

theorem invariant_established_and_preserved:
  "(TimeSeries args = Inr ts \<longrightarrow> ts_invariant ts)
   \<and> (ts_invariant ts \<longrightarrow>
        ts_invariant (snd (setitem ts idx v))
        \<and> ts_len (snd (setitem ts idx v)) = ts_len ts
        \<and> ts_time (snd (setitem ts idx v)) = ts_time ts)
   \<and> (ts_invariant ts \<and> py_index i (ts_len ts) = Inr k \<longrightarrow>
        fst (setitem ts (IntIndex i) v) = None
        \<and> ts_value (snd (setitem ts (IntIndex i) v)) = (ts_value ts)[k := v]
        \<and> ts_value (snd (setitem ts (IntIndex i) v)) ! k = v
        \<and> ts_timeseries (snd (setitem ts (IntIndex i) v)) ! k = (seq_elems (ts_time ts) ! k, v))
   \<and> (getitem ts idx = Inr (NewSeries r) \<longrightarrow> ts_invariant r)
   \<and> (interpolate ts qs = Inr r \<longrightarrow> ts_invariant r)
   \<and> (ts_add ts x = Inr r \<longrightarrow> ts_invariant r)
   \<and> (ts_sub ts x = Inr r \<longrightarrow> ts_invariant r)
   \<and> (ts_mul ts x = Inr r \<longrightarrow> ts_invariant r)
   \<and> (ts_neg ts = Inr r \<longrightarrow> ts_invariant r)
   \<and> (ts_pos ts = Inr r \<longrightarrow> ts_invariant r)"
proof -
  have mutate: "fst (setitem ts (IntIndex i) v) = None
        \<and> ts_value (snd (setitem ts (IntIndex i) v)) = (ts_value ts)[k := v]
        \<and> ts_value (snd (setitem ts (IntIndex i) v)) ! k = v
        \<and> ts_timeseries (snd (setitem ts (IntIndex i) v)) ! k = (seq_elems (ts_time ts) ! k, v)"
    if inv: "ts_invariant ts" and k: "py_index i (ts_len ts) = Inr k"
  proof -
    from k have lt: "k < length (ts_value ts)" unfolding ts_len_def by (rule py_index_Inr)
    from inv have "length (ts_timeseries ts) = length (ts_value ts)"
      by (simp add: ts_invariant_def)
    with lt inv k show ?thesis
      by (simp add: setitem_int_ok ts_len_def)
  qed
  have frame: "ts_invariant (snd (setitem ts idx v))
        \<and> ts_len (snd (setitem ts idx v)) = ts_len ts
        \<and> ts_time (snd (setitem ts idx v)) = ts_time ts" if "ts_invariant ts"
    using that by (simp add: setitem_invariant setitem_frame)
  from mutate frame show ?thesis
    by (auto dest: TimeSeries_invariant getitem_series_invariant
        interpolate_invariant ts_add_invariant ts_sub_invariant ts_mul_invariant
        ts_neg_invariant ts_pos_invariant)
qed

text \<open>
  The theorem at the series \<^verbatim>\<open>TimeSeries([1,2,3], [0,5,10])\<close>: the constructed object, the
  object after \<^verbatim>\<open>t[0] = 99\<close> and the sum \<^verbatim>\<open>t + t\<close> satisfy the invariant.
\<close>

theorem invariant_witness:
  "TimeSeries [PySeq [1, 2, 3], PySeq [0, 5, 10]] =
     Inr \<lparr>ts_time = TList [0, 5, 10], ts_value = [1, 2, 3],
          ts_timeseries = [(0, 1), (5, 2), (10, 3)]\<rparr>
   \<and> ts_invariant \<lparr>ts_time = TList [0, 5, 10], ts_value = [1, 2, 3],
          ts_timeseries = [(0, 1), (5, 2), (10, 3)]\<rparr>
   \<and> setitem \<lparr>ts_time = TList [0, 5, 10], ts_value = [1, 2, 3],
          ts_timeseries = [(0, 1), (5, 2), (10, 3)]\<rparr> (IntIndex 0) 99 =
       (None, \<lparr>ts_time = TList [0, 5, 10], ts_value = [99, 2, 3],
          ts_timeseries = [(0, 99), (5, 2), (10, 3)]\<rparr>)
   \<and> ts_invariant \<lparr>ts_time = TList [0, 5, 10], ts_value = [99, 2, 3],
          ts_timeseries = [(0, 99), (5, 2), (10, 3)]\<rparr>
   \<and> ts_add \<lparr>ts_time = TList [0, 5, 10], ts_value = [1, 2, 3],
          ts_timeseries = [(0, 1), (5, 2), (10, 3)]\<rparr>
        (TS \<lparr>ts_time = TList [0, 5, 10], ts_value = [1, 2, 3],
          ts_timeseries = [(0, 1), (5, 2), (10, 3)]\<rparr>) =
       Inr \<lparr>ts_time = TList [0, 5, 10], ts_value = [2, 4, 6],
          ts_timeseries = [(0, 2), (5, 4), (10, 6)]\<rparr>
   \<and> ts_invariant \<lparr>ts_time = TList [0, 5, 10], ts_value = [2, 4, 6],
          ts_timeseries = [(0, 2), (5, 4), (10, 6)]\<rparr>"
proof -
  let ?E = "\<lparr>ts_time = TList [0, 5, 10], ts_value = [1, 2, 3],
             ts_timeseries = [(0, 1), (5, 2), (10, 3)]\<rparr>"
  let ?M = "\<lparr>ts_time = TList [0, 5, 10], ts_value = [99, 2, 3],
             ts_timeseries = [(0, 99), (5, 2), (10, 3)]\<rparr>"
  let ?A = "\<lparr>ts_time = TList [0, 5, 10], ts_value = [2, 4, 6],
             ts_timeseries = [(0, 2), (5, 4), (10, 6)]\<rparr>"
  have new: "TimeSeries [PySeq [1, 2, 3], PySeq [0, 5, 10]] = Inr ?E"
    by (simp add: TimeSeries_explicit)
  have set: "setitem ?E (IntIndex 0) 99 = (None, ?M)"
    by (simp add: setitem_def list_setitem_def list_getitem_def py_index_def seq_elems_def)
  have add: "ts_add ?E (TS ?E) = Inr ?A"
    by (simp add: ts_add_def misaligned_def ts_len_def as_pyobj_def seq_elems_def
        TimeSeries_init_def truthy_def list_of_def isinstance_Sequence_def)
  note fact = invariant_established_and_preserved
    [where args = "[PySeq [1, 2, 3], PySeq [0, 5, 10]]" and ts = ?E and idx = "IntIndex 0"
       and v = 99 and x = "TS ?E" and r = ?A]
  from fact new have inv: "ts_invariant ?E" by blast
  from fact inv have "ts_invariant (snd (setitem ?E (IntIndex 0) 99))" by blast
  with set have inv_set: "ts_invariant ?M" by simp
  from fact add have inv_add: "ts_invariant ?A" by blast
  from new inv set inv_set add inv_add show ?thesis by blast
qed

section \<open>C7: the default time index\<close>

text \<open>
  Claim C7 says that a TimeSeries constructed with the time argument omitted, empty or
  falsy has the times \<open>1, \<dots>, n\<close>. With an empty or falsy argument this is so (lemmas
  \<open>default_index_when_falsy\<close> and \<open>default_index_getitem\<close> above). With the argument
  omitted it fails: \<^verbatim>\<open>__init__(self, input_value, input_time)\<close> declares no default, so
  the call \<^verbatim>\<open>TimeSeries([1,2,3])\<close> raises \<^verbatim>\<open>TypeError\<close>, although the docstring calls
  \<^verbatim>\<open>input_time\<close> optional.
\<close>

theorem omitted_time_argument:
  "TimeSeries [PySeq [1, 2, 3]] = Inl TypeError"
  by (simp add: TimeSeries_def)

section \<open>C8: indexing\<close>

text \<open>
  Claim C8. For every TimeSeries, indexing with a slice returns a new TimeSeries whose
  values and times are the corresponding sub-ranges of the values and times: for every
  slice with a step other than zero (for which the sub-range exists) the new values and
  the new times are the original ones at the same positions, those the slice selects, all
  within the series, and they are what slicing the two lists gives; for a slice
  \<^verbatim>\<open>series[lo:hi]\<close> with bounds that are not negative, such as \<^verbatim>\<open>series[1:3]\<close>, these are
  the elements from position \<open>lo\<close> up to, not including, position \<open>hi\<close>. Indexing with
  an integer \<open>-n \<le> i < n\<close> returns the (time, value) pair at the position \<open>i\<close> denotes,
  counting from the end when \<open>i\<close> is negative. Any other kind of index raises
  \<^verbatim>\<open>TypeError\<close>.
\<close>

theorem getitem_contract:
  assumes "ts_invariant ts"
  shows "(step \<noteq> Some 0 \<longrightarrow>
           (\<exists>r ks. getitem ts (SliceIndex start stop step) = Inr (NewSeries r)
              \<and> slice_indices start stop step (ts_len ts) = Inr ks
              \<and> (\<forall>k \<in> set ks. k < ts_len ts)
              \<and> ts_value r = map (\<lambda>k. ts_value ts ! k) ks
              \<and> seq_elems (ts_time r) = map (\<lambda>k. seq_elems (ts_time ts) ! k) ks
              \<and> list_getslice (ts_value ts) start stop step = Inr (ts_value r)
              \<and> list_getslice (seq_elems (ts_time ts)) start stop step
                  = Inr (seq_elems (ts_time r))))
       \<and> (0 \<le> lo \<and> 0 \<le> hi \<longrightarrow>
           (\<exists>r. getitem ts (SliceIndex (Some lo) (Some hi) None) = Inr (NewSeries r)
              \<and> ts_value r = drop (nat lo) (take (nat hi) (ts_value ts))
              \<and> seq_elems (ts_time r) = drop (nat lo) (take (nat hi) (seq_elems (ts_time ts)))))
       \<and> (- int (ts_len ts) \<le> i \<and> i < int (ts_len ts) \<longrightarrow>
            getitem ts (IntIndex i) =
              Inr (TimeValue
                    (seq_elems (ts_time ts) ! position i (ts_len ts),
                     ts_value ts ! position i (ts_len ts))))
       \<and> getitem ts OtherIndex = Inl TypeError"
proof -
  have bounds: "\<exists>r. getitem ts (SliceIndex (Some lo) (Some hi) None) = Inr (NewSeries r)
              \<and> ts_value r = drop (nat lo) (take (nat hi) (ts_value ts))
              \<and> seq_elems (ts_time r) = drop (nat lo) (take (nat hi) (seq_elems (ts_time ts)))"
    if "0 \<le> lo" and "0 \<le> hi"
    using getitem_slice [OF assms, of None "Some lo" "Some hi"]
      list_getslice_nonneg [OF that, of "ts_value ts"]
      list_getslice_nonneg [OF that, of "seq_elems (ts_time ts)"]
    by auto
  have int: "getitem ts (IntIndex i) =
              Inr (TimeValue
                    (seq_elems (ts_time ts) ! position i (ts_len ts),
                     ts_value ts ! position i (ts_len ts)))"
    if "- int (ts_len ts) \<le> i" and "i < int (ts_len ts)"
    using getitem_int [OF assms py_index_position [OF that]] .
  from bounds int getitem_slice [OF assms] show ?thesis
    by (simp add: getitem_def)
qed

text \<open>
  The theorem at \<^verbatim>\<open>t = TimeSeries([1,2,3], [0,5,10])\<close>: \<^verbatim>\<open>t[1:3]\<close>, \<^verbatim>\<open>t[::-1]\<close>, \<^verbatim>\<open>t[-1]\<close> and
  an index of another kind.
\<close>

theorem getitem_witness:
  "ts_invariant \<lparr>ts_time = TList [0, 5, 10], ts_value = [1, 2, 3],
                 ts_timeseries = [(0, 1), (5, 2), (10, 3)]\<rparr>
   \<and> (\<exists>r. getitem \<lparr>ts_time = TList [0, 5, 10], ts_value = [1, 2, 3],
                     ts_timeseries = [(0, 1), (5, 2), (10, 3)]\<rparr>
               (SliceIndex (Some 1) (Some 3) None) = Inr (NewSeries r)
          \<and> ts_value r = [2, 3] \<and> seq_elems (ts_time r) = [5, 10])
   \<and> (\<exists>r. getitem \<lparr>ts_time = TList [0, 5, 10], ts_value = [1, 2, 3],
                     ts_timeseries = [(0, 1), (5, 2), (10, 3)]\<rparr>
               (SliceIndex None None (Some (- 1))) = Inr (NewSeries r)
          \<and> ts_value r = [3, 2, 1] \<and> seq_elems (ts_time r) = [10, 5, 0])
   \<and> getitem \<lparr>ts_time = TList [0, 5, 10], ts_value = [1, 2, 3],
               ts_timeseries = [(0, 1), (5, 2), (10, 3)]\<rparr> (IntIndex (- 1))
       = Inr (TimeValue (10, 3))
   \<and> getitem \<lparr>ts_time = TList [0, 5, 10], ts_value = [1, 2, 3],
               ts_timeseries = [(0, 1), (5, 2), (10, 3)]\<rparr> OtherIndex = Inl TypeError"
proof -
  let ?t = "\<lparr>ts_time = TList [0, 5, 10], ts_value = [1, 2, 3],
             ts_timeseries = [(0, 1), (5, 2), (10, 3)]\<rparr>"
  have inv: "ts_invariant ?t" by (simp add: ts_invariant_def seq_elems_def)
  note fact = getitem_contract [OF inv, of "Some (- 1)" None None 1 3 "- 1"]
  have rev_v: "list_getslice (ts_value ?t) None None (Some (- 1)) = Inr [3, 2, 1]"
    by code_simp
  have rev_t: "list_getslice (seq_elems (ts_time ?t)) None None (Some (- 1)) = Inr [10, 5, 0]"
    by code_simp
  from fact have "\<exists>r. getitem ?t (SliceIndex (Some 1) (Some 3) None) = Inr (NewSeries r)
          \<and> ts_value r = [2, 3] \<and> seq_elems (ts_time r) = [5, 10]"
    by (simp add: seq_elems_def)
  moreover from fact rev_v rev_t
  have "\<exists>r. getitem ?t (SliceIndex None None (Some (- 1))) = Inr (NewSeries r)
          \<and> ts_value r = [3, 2, 1] \<and> seq_elems (ts_time r) = [10, 5, 0]"
    by auto
  moreover from fact have "getitem ?t (IntIndex (- 1)) = Inr (TimeValue (10, 3))"
    by (simp add: ts_len_def position_def seq_elems_def)
  moreover from fact have "getitem ?t OtherIndex = Inl TypeError" by simp
  ultimately show ?thesis using inv by blast
qed

section \<open>C9: assignment to an index changes that position only\<close>

text \<open>
  Claim C9. For every TimeSeries and every valid integer index \<open>-n \<le> i < n\<close>, setting the
  value at \<open>i\<close> to \<open>v\<close> succeeds and changes only the position \<open>i\<close> denotes: the length and
  the times are unchanged, the pair at \<open>i\<close> becomes \<open>(times[i], v)\<close>, the pair at every valid
  index that denotes another position is unchanged, and so is every other entry of the
  stored values and pairs. A slice or any other non-integer index raises \<^verbatim>\<open>TypeError\<close>
  and leaves the object as it was.
\<close>

theorem setitem_changes_only_position:
  assumes "ts_invariant ts" and "- int (ts_len ts) \<le> i" and "i < int (ts_len ts)"
  shows "fst (setitem ts (IntIndex i) v) = None
       \<and> ts_len (snd (setitem ts (IntIndex i) v)) = ts_len ts
       \<and> ts_time (snd (setitem ts (IntIndex i) v)) = ts_time ts
       \<and> getitem (snd (setitem ts (IntIndex i) v)) (IntIndex i)
           = Inr (TimeValue (seq_elems (ts_time ts) ! position i (ts_len ts), v))
       \<and> (\<forall>j. - int (ts_len ts) \<le> j \<and> j < int (ts_len ts)
                \<and> position j (ts_len ts) \<noteq> position i (ts_len ts) \<longrightarrow>
              getitem (snd (setitem ts (IntIndex i) v)) (IntIndex j) = getitem ts (IntIndex j))
       \<and> (\<forall>k. k \<noteq> position i (ts_len ts) \<longrightarrow>
              ts_value (snd (setitem ts (IntIndex i) v)) ! k = ts_value ts ! k
            \<and> ts_timeseries (snd (setitem ts (IntIndex i) v)) ! k = ts_timeseries ts ! k)
       \<and> setitem ts (SliceIndex start stop step) v = (Some TypeError, ts)
       \<and> setitem ts OtherIndex v = (Some TypeError, ts)"
proof -
  let ?n = "ts_len ts" and ?k = "position i (ts_len ts)"
  let ?ts' = "snd (setitem ts (IntIndex i) v)"
  have pk: "py_index i ?n = Inr ?k" using assms(2,3) by (rule py_index_position)
  then have lt: "?k < length (ts_value ts)" unfolding ts_len_def by (rule py_index_Inr)
  have eq: "setitem ts (IntIndex i) v =
          (None, ts\<lparr>ts_value := (ts_value ts)[?k := v],
                     ts_timeseries := (ts_timeseries ts)[?k := (seq_elems (ts_time ts) ! ?k, v)]\<rparr>)"
    using assms(1) pk by (simp add: setitem_int_ok ts_len_def)
  have inv': "ts_invariant ?ts'" using assms(1) by (rule setitem_invariant)
  have len': "ts_len ?ts' = ?n" and time': "ts_time ?ts' = ts_time ts"
    using eq by (simp_all add: ts_len_def)
  have val': "ts_value ?ts' = (ts_value ts)[?k := v]" using eq by simp
  have at_i: "getitem ?ts' (IntIndex i) = Inr (TimeValue (seq_elems (ts_time ts) ! ?k, v))"
    using getitem_int [OF inv', of i ?k] pk lt by (simp add: len' time' val')
  have other: "getitem ?ts' (IntIndex j) = getitem ts (IntIndex j)"
    if "- int ?n \<le> j" and "j < int ?n" and "position j ?n \<noteq> ?k" for j
  proof -
    have pj: "py_index j ?n = Inr (position j ?n)" using that(1,2) by (rule py_index_position)
    from getitem_int [OF inv', of j "position j ?n"] getitem_int [OF assms(1) pj] pj that(3)
    show ?thesis by (simp add: len' time' val')
  qed
  have frame: "ts_value ?ts' ! k = ts_value ts ! k
            \<and> ts_timeseries ?ts' ! k = ts_timeseries ts ! k" if "k \<noteq> ?k" for k
    using that eq by simp
  from eq len' time' at_i other frame show ?thesis
    by (simp add: setitem_def)
qed

text \<open>
  The theorem at \<^verbatim>\<open>t = TimeSeries([1,2,3], [0,5,10])\<close> and \<^verbatim>\<open>t[0] = 99\<close>: the length stays
  3, \<^verbatim>\<open>t[0]\<close> becomes \<open>(0, 99)\<close>, \<^verbatim>\<open>t[1]\<close> and \<^verbatim>\<open>t[2]\<close> are unchanged.
\<close>

theorem setitem_witness:
  "ts_invariant \<lparr>ts_time = TList [0, 5, 10], ts_value = [1, 2, 3],
                 ts_timeseries = [(0, 1), (5, 2), (10, 3)]\<rparr>
   \<and> setitem \<lparr>ts_time = TList [0, 5, 10], ts_value = [1, 2, 3],
               ts_timeseries = [(0, 1), (5, 2), (10, 3)]\<rparr> (IntIndex 0) 99
       = (None, \<lparr>ts_time = TList [0, 5, 10], ts_value = [99, 2, 3],
                 ts_timeseries = [(0, 99), (5, 2), (10, 3)]\<rparr>)
   \<and> ts_len \<lparr>ts_time = TList [0, 5, 10], ts_value = [99, 2, 3],
              ts_timeseries = [(0, 99), (5, 2), (10, 3)]\<rparr> = 3
   \<and> getitem \<lparr>ts_time = TList [0, 5, 10], ts_value = [99, 2, 3],
               ts_timeseries = [(0, 99), (5, 2), (10, 3)]\<rparr> (IntIndex 0)
       = Inr (TimeValue (0, 99))
   \<and> getitem \<lparr>ts_time = TList [0, 5, 10], ts_value = [99, 2, 3],
               ts_timeseries = [(0, 99), (5, 2), (10, 3)]\<rparr> (IntIndex 1)
       = getitem \<lparr>ts_time = TList [0, 5, 10], ts_value = [1, 2, 3],
                  ts_timeseries = [(0, 1), (5, 2), (10, 3)]\<rparr> (IntIndex 1)
   \<and> getitem \<lparr>ts_time = TList [0, 5, 10], ts_value = [99, 2, 3],
               ts_timeseries = [(0, 99), (5, 2), (10, 3)]\<rparr> (IntIndex 2)
       = getitem \<lparr>ts_time = TList [0, 5, 10], ts_value = [1, 2, 3],
                  ts_timeseries = [(0, 1), (5, 2), (10, 3)]\<rparr> (IntIndex 2)
   \<and> setitem \<lparr>ts_time = TList [0, 5, 10], ts_value = [1, 2, 3],
               ts_timeseries = [(0, 1), (5, 2), (10, 3)]\<rparr> OtherIndex 99
       = (Some TypeError, \<lparr>ts_time = TList [0, 5, 10], ts_value = [1, 2, 3],
                            ts_timeseries = [(0, 1), (5, 2), (10, 3)]\<rparr>)"
proof -
  let ?t = "\<lparr>ts_time = TList [0, 5, 10], ts_value = [1, 2, 3],
             ts_timeseries = [(0, 1), (5, 2), (10, 3)]\<rparr>"
  let ?t' = "\<lparr>ts_time = TList [0, 5, 10], ts_value = [99, 2, 3],
             ts_timeseries = [(0, 99), (5, 2), (10, 3)]\<rparr>"
  have inv: "ts_invariant ?t" by (simp add: ts_invariant_def seq_elems_def)
  have lo: "- int (ts_len ?t) \<le> 0" and hi: "0 < int (ts_len ?t)"
    by (simp_all add: ts_len_def)
  have set: "setitem ?t (IntIndex 0) 99 = (None, ?t')"
    by (simp add: setitem_def list_setitem_def list_getitem_def py_index_def seq_elems_def)
  note fact = setitem_changes_only_position [OF inv lo hi, of 99 None None None]
  from fact set have len: "ts_len ?t' = 3" by (simp add: ts_len_def)
  from fact set have at0: "getitem ?t' (IntIndex 0) = Inr (TimeValue (0, 99))"
    by (simp add: position_def seq_elems_def)
  from fact set have others:
    "\<forall>j. - int (ts_len ?t) \<le> j \<and> j < int (ts_len ?t)
                \<and> position j (ts_len ?t) \<noteq> position 0 (ts_len ?t) \<longrightarrow>
              getitem ?t' (IntIndex j) = getitem ?t (IntIndex j)"
    by simp
  have "getitem ?t' (IntIndex 1) = getitem ?t (IntIndex 1)"
    using others by (simp add: position_def ts_len_def)
  moreover have "getitem ?t' (IntIndex 2) = getitem ?t (IntIndex 2)"
    using others by (simp add: position_def ts_len_def)
  moreover from fact have "setitem ?t OtherIndex 99 = (Some TypeError, ?t)" by simp
  ultimately show ?thesis using inv set len at0 by simp
qed

section \<open>C10: a query that gets no value makes the call raise\<close>

text \<open>
  Claim C10. For a TimeSeries of exactly one pair and a non-empty sequence of query times,
  the scan appends no value at all (the cursor starts at 1, which is not below \<open>n = 1\<close>, so
  the loop body never runs, the clamp branches included), and the call raises
  \<^verbatim>\<open>ValueError\<close> when it constructs the result. For any series: if the queries before \<open>t\<close>
  leave the cursor at \<open>c\<close> and the scan for \<open>t\<close> ends without a value, then the cursor has
  reached \<open>n\<close>, no later query gets a value either, and the call raises \<^verbatim>\<open>ValueError\<close>.
\<close>

theorem interpolate_without_value_raises:
  fixes ts :: timeseries
  defines "time \<equiv> seq_elems (ts_time ts)" and "val \<equiv> ts_value ts" and "n \<equiv> length (seq_elems (ts_time ts))"
  shows "(ts_invariant ts \<and> ts_len ts = 1 \<and> qs \<noteq> [] \<longrightarrow>
            interp_loop time val n qs 1 [] = Inr (1, []) \<and> interpolate ts qs = Inl ValueError)
       \<and> (interp_loop time val n qs 1 [] = Inr (c, vs) \<and> scan time val n t c = Inr (c', None) \<longrightarrow>
            n \<le> c' \<and> interp_loop time val n (qs @ t # rest) 1 [] = Inr (c', vs)
            \<and> interpolate ts (qs @ t # rest) = Inl ValueError)"
proof -
  have single: "interp_loop time val n qs 1 [] = Inr (1, []) \<and> interpolate ts qs = Inl ValueError"
    if "ts_invariant ts" and "ts_len ts = 1" and "qs \<noteq> []"
  proof -
    from that(1,2) have "n = 1" by (simp add: n_def ts_invariant_def ts_len_def)
    then have loop: "interp_loop time val n qs 1 [] = Inr (1, [])"
      by (simp add: interp_loop_exhausted)
    with that(3) have "interpolate ts qs = Inl ValueError"
      by (intro interpolate_some_unmatched [where c = 1 and vs = "[]"])
        (simp_all add: time_def val_def n_def)
    with loop show ?thesis by simp
  qed
  have exhausted: "n \<le> c' \<and> interp_loop time val n (qs @ t # rest) 1 [] = Inr (c', vs)
            \<and> interpolate ts (qs @ t # rest) = Inl ValueError"
    if prev: "interp_loop time val n qs 1 [] = Inr (c, vs)"
      and s: "scan time val n t c = Inr (c', None)"
  proof -
    from s have c': "n \<le> c'" by (rule scan_None)
    with prev s have loop: "interp_loop time val n (qs @ t # rest) 1 [] = Inr (c', vs)"
      by (simp add: interp_loop_append interp_loop_exhausted)
    from interp_loop_result [OF prev] have "length vs \<noteq> length (qs @ t # rest)" by simp
    with loop have "interpolate ts (qs @ t # rest) = Inl ValueError"
      by (intro interpolate_some_unmatched [where c = c' and vs = vs])
        (simp_all add: time_def val_def n_def)
    with c' loop show ?thesis by simp
  qed
  from single exhausted show ?thesis by blast
qed


text \<open>
  The theorem at \<^verbatim>\<open>TimeSeries([7], [3]).interpolate([0, 5])\<close>, and at
  \<^verbatim>\<open>TimeSeries([1,2,3], [0,5,10]).interpolate([7, 3, -100])\<close>, where the query 3 comes after
  the cursor has moved to the bracket \<open>[5, 10]\<close>.
\<close>

theorem interpolate_without_value_witness:
  "ts_invariant \<lparr>ts_time = TList [3], ts_value = [7], ts_timeseries = [(3, 7)]\<rparr>
   \<and> ts_len \<lparr>ts_time = TList [3], ts_value = [7], ts_timeseries = [(3, 7)]\<rparr> = 1
   \<and> interp_loop [3] [7] 1 [0, 5] 1 [] = Inr (1, [])
   \<and> interpolate \<lparr>ts_time = TList [3], ts_value = [7], ts_timeseries = [(3, 7)]\<rparr> [0, 5] = Inl ValueError
   \<and> interp_loop [0, 5, 10] [1, 2, 3] 3 [7] 1 [] = Inr (2, [42 / 5])
   \<and> scan [0, 5, 10] [1, 2, 3] 3 3 2 = Inr (3, None)
   \<and> interpolate \<lparr>ts_time = TList [0, 5, 10], ts_value = [1, 2, 3],
             ts_timeseries = [(0, 1), (5, 2), (10, 3)]\<rparr> [7, 3, - 100] = Inl ValueError"
proof -
  let ?s = "\<lparr>ts_time = TList [3], ts_value = [7], ts_timeseries = [(3, 7)]\<rparr>"
  let ?t = "\<lparr>ts_time = TList [0, 5, 10], ts_value = [1, 2, 3],
             ts_timeseries = [(0, 1), (5, 2), (10, 3)]\<rparr>"
  have inv: "ts_invariant ?s" by (simp add: ts_invariant_def seq_elems_def)
  have len: "ts_len ?s = 1" by (simp add: ts_len_def)
  from interpolate_without_value_raises [of ?s "[0, 5]"] inv len
  have single: "interp_loop [3] [7] 1 [0, 5] 1 [] = Inr (1, [])
      \<and> interpolate ?s [0, 5] = Inl ValueError"
    by (simp add: seq_elems_def)
  have prev: "interp_loop [0, 5, 10] [1, 2, 3] 3 [7] 1 [] = Inr (2, [42 / 5])"
    by (simp add: scan.simps loop_body_def numeral_3_eq_3)
  have s: "scan [0, 5, 10] [1, 2, 3] 3 3 2 = Inr (3, None)"
    by (simp add: scan.simps loop_body_def numeral_3_eq_3)
  from interpolate_without_value_raises [of ?t "[7]" 2 "[42 / 5]" 3 3 "[- 100]"] prev s
  have "interpolate ?t [7, 3, - 100] = Inl ValueError"
    by (simp add: seq_elems_def numeral_3_eq_3)
  with inv len single prev s show ?thesis by simp
qed

end
